theory Spec2Isabelle
  imports Complex_Main "HOL-Library.Word"
begin

section \<open>JavaScript values as the handlers of server.js see them\<close>

text \<open>
  A JavaScript string is a sequence of UTF-16 code units. A request body is what
  \<^verbatim>\<open>express.json()\<close> hands to a handler: a JSON object, read here through its
  properties; reading a property the object does not have gives \<^verbatim>\<open>undefined\<close>.
  Numbers are the finite ones (both zeros are \<open>JNum 0\<close>).
\<close>

type_synonym js_string = "16 word list"

datatype jsval =
    JUndefined
  | JNull
  | JBool bool
  | JNum rat
  | JStr js_string
  | JArr "jsval list"
  | JObj "(string \<times> jsval) list"

type_synonym body = "string \<Rightarrow> jsval"

text \<open>The body with no property at all: \<^verbatim>\<open>{}\<close>.\<close>

definition empty_body :: body where
  "empty_body = (\<lambda>_. JUndefined)"

text \<open>
  Truthiness, as \<^verbatim>\<open>!x\<close> and \<^verbatim>\<open>x || y\<close> test it: \<^verbatim>\<open>undefined\<close>, \<^verbatim>\<open>null\<close>,
  \<^verbatim>\<open>false\<close>, zero and the empty string are falsy, every other value is truthy.
\<close>

fun truthy :: "jsval \<Rightarrow> bool" where
  "truthy JUndefined = False"
| "truthy JNull = False"
| "truthy (JBool b) = b"
| "truthy (JNum n) = (n \<noteq> 0)"
| "truthy (JStr s) = (s \<noteq> [])"
| "truthy (JArr xs) = True"
| "truthy (JObj fs) = True"

text \<open>\<^verbatim>\<open>a || b\<close>\<close>

definition js_or :: "jsval \<Rightarrow> jsval \<Rightarrow> jsval" where
  "js_or a b = (if truthy a then a else b)"

text \<open>\<^verbatim>\<open>typeof v === 'string'\<close>\<close>

definition is_string :: "jsval \<Rightarrow> bool" where
  "is_string v = (case v of JStr str \<Rightarrow> True | _ \<Rightarrow> False)"

text \<open>
  The code units \<^verbatim>\<open>String.prototype.trim\<close> strips: ECMAScript's WhiteSpace and
  LineTerminator.
\<close>

definition is_white_space :: "16 word \<Rightarrow> bool" where
  "is_white_space c \<longleftrightarrow>
     c = 0x09 \<or> c = 0x0A \<or> c = 0x0B \<or> c = 0x0C \<or> c = 0x0D \<or> c = 0x20 \<or> c = 0xA0
     \<or> c = 0x1680 \<or> (0x2000 \<le> c \<and> c \<le> 0x200A) \<or> c = 0x2028 \<or> c = 0x2029
     \<or> c = 0x202F \<or> c = 0x205F \<or> c = 0x3000 \<or> c = 0xFEFF"

definition trim :: "js_string \<Rightarrow> js_string" where
  "trim s = rev (dropWhile is_white_space (rev (dropWhile is_white_space s)))"

text \<open>A title that is empty or has white space only.\<close>

definition blank :: "js_string \<Rightarrow> bool" where
  "blank s = list_all is_white_space s"

text \<open>A thrown error: \<^verbatim>\<open>err.name\<close> and \<^verbatim>\<open>err.message\<close>.\<close>

datatype js_error = JsError (err_name: string) (err_message: string)

text \<open>
  \<^verbatim>\<open>x.trim()\<close> where \<open>x\<close> is the value of the expression \<open>expr\<close>. Only a string has the
  method; on every other value the call throws a TypeError (the wording of the message is
  the engine's).
\<close>

fun call_trim :: "string \<Rightarrow> jsval \<Rightarrow> js_error + js_string" where
  "call_trim expr (JStr s) = Inr (trim s)"
| "call_trim expr JUndefined =
     Inl (JsError ''TypeError'' ''Cannot read properties of undefined (reading trim)'')"
| "call_trim expr JNull =
     Inl (JsError ''TypeError'' ''Cannot read properties of null (reading trim)'')"
| "call_trim expr v = Inl (JsError ''TypeError'' (expr @ ''.trim is not a function''))"

section \<open>Documents and responses\<close>

text \<open>
  Modelled from the spec: models/Task.js and models/Session.js are not part of the
  sources. Section 3 of the specification gives a Task an identifier, a text title and a
  boolean completed flag, and a Session an identifier, the referenced Task's identifier,
  a numeric duration, a start time and a boolean completed flag. An identifier is the
  store's twelve-byte ObjectId.
\<close>

type_synonym object_id = "96 word"

record task =
  task_id :: object_id
  title :: js_string
  completed :: bool

record session =
  session_id :: object_id
  taskId :: object_id
  duration :: rat
  startTime :: jsval
  session_completed :: bool

text \<open>
  The \<open>message\<close> of a body: a literal, the error's own message, or one of the two template
  literals of server.js, kept with the value they interpolate.
\<close>

datatype message =
    Text string
  | TaskWithIdNotFound js_string
  | TaskWithIdDoesNotExist jsval

datatype payload =
    ErrorBody (error: string) (message: message)
  | TaskBody task
  | DeletedBody string task
  | SessionBody session

datatype response = Response (status: nat) (payload: payload)

section \<open>The document store, as the handlers call it\<close>

text \<open>
  mongoose and the two models are outside server.js, so the handlers take them as a
  parameter: one function for each call server.js makes, over a store state \<open>'s\<close>. A call
  that rejects returns \<open>Inl\<close> of the error. A write returns the store after it; a read
  leaves the store as it is.
\<close>

record 's store =
  ObjectId_isValid :: "jsval \<Rightarrow> bool"
  Task_save :: "js_string \<Rightarrow> jsval \<Rightarrow> 's \<Rightarrow> (js_error + task) \<times> 's"
  Task_findById :: "jsval \<Rightarrow> 's \<Rightarrow> js_error + task option"
  Task_findByIdAndUpdate :: "js_string \<Rightarrow> body \<Rightarrow> 's \<Rightarrow> (js_error + task option) \<times> 's"
  Task_findByIdAndDelete :: "js_string \<Rightarrow> 's \<Rightarrow> (js_error + task option) \<times> 's"
  Session_save :: "jsval \<Rightarrow> jsval \<Rightarrow> jsval \<Rightarrow> jsval \<Rightarrow> 's \<Rightarrow> (js_error + session) \<times> 's"

section \<open>The handlers of server.js\<close>

text \<open>
  The catch block of POST /api/tasks, PUT /api/tasks/:id and POST /api/sessions: an
  error named ValidationError is answered with 400, any other with 500.
\<close>

definition catch_validation :: "js_error \<Rightarrow> response" where
  "catch_validation err =
     (if err_name err = ''ValidationError''
      then Response 400 (ErrorBody ''Validation error'' (Text (err_message err)))
      else Response 500 (ErrorBody ''Server error'' (Text (err_message err))))"

text \<open>The catch block of GET /api/tasks/:id and DELETE /api/tasks/:id.\<close>

definition catch_server :: "js_error \<Rightarrow> response" where
  "catch_server err = Response 500 (ErrorBody ''Server error'' (Text (err_message err)))"

text \<open>POST /api/tasks\<close>

definition post_api_tasks :: "'s store \<Rightarrow> body \<Rightarrow> 's \<Rightarrow> response \<times> 's" where
  "post_api_tasks db req_body s =
     (if \<not> truthy (req_body ''title'')
      then (Response 400 (ErrorBody ''Validation error'' (Text ''Title is required'')), s)
      else case call_trim ''title'' (req_body ''title'') of
        Inl err \<Rightarrow> (catch_validation err, s)
      | Inr trimmed \<Rightarrow>
          if trimmed = []
          then (Response 400 (ErrorBody ''Validation error'' (Text ''Title is required'')), s)
          else (case Task_save db trimmed (js_or (req_body ''completed'') (JBool False)) s of
              (Inl err, s') \<Rightarrow> (catch_validation err, s')
            | (Inr savedTask, s') \<Rightarrow> (Response 201 (TaskBody savedTask), s')))"

text \<open>GET /api/tasks/:id\<close>

definition get_api_tasks_id :: "'s store \<Rightarrow> js_string \<Rightarrow> 's \<Rightarrow> response" where
  "get_api_tasks_id db ident s =
     (if \<not> ObjectId_isValid db (JStr ident)
      then Response 404 (ErrorBody ''Task not found'' (Text ''Invalid task ID format''))
      else case Task_findById db (JStr ident) s of
        Inl err \<Rightarrow> catch_server err
      | Inr None \<Rightarrow> Response 404 (ErrorBody ''Task not found'' (TaskWithIdNotFound ident))
      | Inr (Some t) \<Rightarrow> Response 200 (TaskBody t))"

text \<open>
  PUT /api/tasks/:id. The update itself and its answer (the call of
  \<^verbatim>\<open>findByIdAndUpdate\<close> and what follows it) come first, then the handler, which
  reaches them when the title is absent or trims to something.
\<close>

definition find_and_update :: "'s store \<Rightarrow> js_string \<Rightarrow> body \<Rightarrow> 's \<Rightarrow> response \<times> 's" where
  "find_and_update db ident updates s =
     (case Task_findByIdAndUpdate db ident updates s of
        (Inl err, s') \<Rightarrow> (catch_validation err, s')
      | (Inr None, s') \<Rightarrow>
          (Response 404 (ErrorBody ''Task not found'' (Text ''Task not found'')), s')
      | (Inr (Some updatedTask), s') \<Rightarrow> (Response 200 (TaskBody updatedTask), s'))"

definition put_api_tasks_id :: "'s store \<Rightarrow> js_string \<Rightarrow> body \<Rightarrow> 's \<Rightarrow> response \<times> 's" where
  "put_api_tasks_id db ident updates s =
     (if \<not> ObjectId_isValid db (JStr ident)
      then (Response 404 (ErrorBody ''Task not found'' (Text ''Invalid task ID format'')), s)
      else if updates ''title'' \<noteq> JUndefined
      then (case call_trim ''updates.title'' (updates ''title'') of
          Inl err \<Rightarrow> (catch_validation err, s)
        | Inr trimmed \<Rightarrow>
            if trimmed = []
            then (Response 400
                    (ErrorBody ''Validation error'' (Text ''Title cannot be empty'')), s)
            else find_and_update db ident updates s)
      else find_and_update db ident updates s)"

text \<open>DELETE /api/tasks/:id\<close>

definition delete_api_tasks_id :: "'s store \<Rightarrow> js_string \<Rightarrow> 's \<Rightarrow> response \<times> 's" where
  "delete_api_tasks_id db ident s =
     (if \<not> ObjectId_isValid db (JStr ident)
      then (Response 404 (ErrorBody ''Task not found'' (Text ''Invalid task ID format'')), s)
      else case Task_findByIdAndDelete db ident s of
        (Inl err, s') \<Rightarrow> (catch_server err, s')
      | (Inr None, s') \<Rightarrow>
          (Response 404 (ErrorBody ''Task not found'' (Text ''Task not found'')), s')
      | (Inr (Some deletedTask), s') \<Rightarrow>
          (Response 200 (DeletedBody ''Task deleted successfully'' deletedTask), s'))"

text \<open>POST /api/sessions\<close>

definition post_api_sessions :: "'s store \<Rightarrow> body \<Rightarrow> 's \<Rightarrow> response \<times> 's" where
  "post_api_sessions db req_body s =
     (if \<not> truthy (req_body ''taskId'')
      then (Response 400 (ErrorBody ''Validation error'' (Text ''Task ID is required'')), s)
      else if \<not> truthy (req_body ''duration'')
      then (Response 400 (ErrorBody ''Validation error'' (Text ''Duration is required'')), s)
      else if \<not> truthy (req_body ''startTime'')
      then (Response 400 (ErrorBody ''Validation error'' (Text ''Start time is required'')), s)
      else if \<not> ObjectId_isValid db (req_body ''taskId'')
      then (Response 400 (ErrorBody ''Validation error'' (Text ''Invalid task ID format'')), s)
      else case Task_findById db (req_body ''taskId'') s of
        Inl err \<Rightarrow> (catch_validation err, s)
      | Inr None \<Rightarrow>
          (Response 400
             (ErrorBody ''Validation error'' (TaskWithIdDoesNotExist (req_body ''taskId''))), s)
      | Inr (Some taskExists) \<Rightarrow>
          (case Session_save db (req_body ''taskId'') (req_body ''duration'')
                  (req_body ''startTime'')
                  (if req_body ''completed'' \<noteq> JUndefined then req_body ''completed''
                   else JBool True) s of
              (Inl err, s') \<Rightarrow> (catch_validation err, s')
            | (Inr savedSession, s') \<Rightarrow> (Response 201 (SessionBody savedSession), s')))"

section \<open>An in-memory document store\<close>

text \<open>
  Modelled from the spec: the document store of section 6 (insert with a generated
  identifier, find by identifier, update by identifier with a partial document, delete by
  identifier, and a schema validation failure told apart from other failures), with the
  schemas of section 3 read as the types of the fields. An identifier is written as 24
  hexadecimal digits; the store generates them from a counter.
\<close>

record mem =
  tasks :: "object_id \<rightharpoonup> task"
  sessions :: "object_id \<rightharpoonup> session"
  next_id :: object_id

definition mem_empty :: mem where
  "mem_empty = \<lparr>tasks = Map.empty, sessions = Map.empty, next_id = 0\<rparr>"

definition hex_value :: "16 word \<Rightarrow> nat option" where
  "hex_value c =
     (if 0x30 \<le> c \<and> c \<le> 0x39 then Some (unat c - 0x30)
      else if 0x41 \<le> c \<and> c \<le> 0x46 then Some (unat c - 0x41 + 10)
      else if 0x61 \<le> c \<and> c \<le> 0x66 then Some (unat c - 0x61 + 10)
      else None)"

fun parse_hex :: "js_string \<Rightarrow> object_id \<Rightarrow> object_id option" where
  "parse_hex [] acc = Some acc"
| "parse_hex (c # cs) acc =
     (case hex_value c of None \<Rightarrow> None | Some d \<Rightarrow> parse_hex cs (acc * 16 + of_nat d))"

definition parse_oid :: "js_string \<Rightarrow> object_id option" where
  "parse_oid str = (if length str = 24 then parse_hex str 0 else None)"

definition cast_oid :: "jsval \<Rightarrow> object_id option" where
  "cast_oid v = (case v of JStr str \<Rightarrow> parse_oid str | _ \<Rightarrow> None)"

definition mem_isValid :: "jsval \<Rightarrow> bool" where
  "mem_isValid v = (cast_oid v \<noteq> None)"

definition validation_failed :: "string \<Rightarrow> js_error" where
  "validation_failed path = JsError ''ValidationError'' (''Validation failed: '' @ path)"

definition cast_failed :: js_error where
  "cast_failed = JsError ''CastError'' ''Cast to ObjectId failed''"

definition mem_Task_save :: "js_string \<Rightarrow> jsval \<Rightarrow> mem \<Rightarrow> (js_error + task) \<times> mem" where
  "mem_Task_save ttl cmp s =
     (case cmp of
        JBool b \<Rightarrow>
          (let doc = \<lparr>task_id = next_id s, title = ttl, completed = b\<rparr>
           in (Inr doc, s\<lparr>tasks := (tasks s)(next_id s \<mapsto> doc), next_id := next_id s + 1\<rparr>))
      | _ \<Rightarrow> (Inl (validation_failed ''completed''), s))"

definition mem_Task_findById :: "jsval \<Rightarrow> mem \<Rightarrow> js_error + task option" where
  "mem_Task_findById v s =
     (case cast_oid v of None \<Rightarrow> Inl cast_failed | Some k \<Rightarrow> Inr (tasks s k))"

text \<open>
  The partial document of an update: a property the body has replaces the field, a field
  the body does not name is kept.
\<close>

definition apply_updates :: "body \<Rightarrow> task \<Rightarrow> js_error + task" where
  "apply_updates updates t =
     (case (case updates ''title'' of
              JUndefined \<Rightarrow> Inr t
            | JStr str \<Rightarrow> Inr (t\<lparr>title := str\<rparr>)
            | _ \<Rightarrow> Inl (validation_failed ''title'')) of
        Inl err \<Rightarrow> Inl err
      | Inr t1 \<Rightarrow>
          (case updates ''completed'' of
             JUndefined \<Rightarrow> Inr t1
           | JBool b \<Rightarrow> Inr (t1\<lparr>completed := b\<rparr>)
           | _ \<Rightarrow> Inl (validation_failed ''completed'')))"

definition mem_Task_findByIdAndUpdate ::
  "js_string \<Rightarrow> body \<Rightarrow> mem \<Rightarrow> (js_error + task option) \<times> mem" where
  "mem_Task_findByIdAndUpdate ident updates s =
     (case parse_oid ident of
        None \<Rightarrow> (Inl cast_failed, s)
      | Some k \<Rightarrow>
          (case tasks s k of
             None \<Rightarrow> (Inr None, s)
           | Some t \<Rightarrow>
               (case apply_updates updates t of
                  Inl err \<Rightarrow> (Inl err, s)
                | Inr t' \<Rightarrow> (Inr (Some t'), s\<lparr>tasks := (tasks s)(k \<mapsto> t')\<rparr>))))"

definition mem_Task_findByIdAndDelete ::
  "js_string \<Rightarrow> mem \<Rightarrow> (js_error + task option) \<times> mem" where
  "mem_Task_findByIdAndDelete ident s =
     (case parse_oid ident of
        None \<Rightarrow> (Inl cast_failed, s)
      | Some k \<Rightarrow>
          (case tasks s k of
             None \<Rightarrow> (Inr None, s)
           | Some t \<Rightarrow> (Inr (Some t), s\<lparr>tasks := (tasks s)(k := None)\<rparr>)))"

definition mem_Session_save ::
  "jsval \<Rightarrow> jsval \<Rightarrow> jsval \<Rightarrow> jsval \<Rightarrow> mem \<Rightarrow> (js_error + session) \<times> mem" where
  "mem_Session_save tid dur start cmp s =
     (case (cast_oid tid, dur, cmp) of
        (Some k, JNum d, JBool b) \<Rightarrow>
          (let doc = \<lparr>session_id = next_id s, taskId = k, duration = d, startTime = start,
                      session_completed = b\<rparr>
           in (Inr doc,
               s\<lparr>sessions := (sessions s)(next_id s \<mapsto> doc), next_id := next_id s + 1\<rparr>))
      | _ \<Rightarrow> (Inl (validation_failed ''Session''), s))"

definition mem_store :: "mem store" where
  "mem_store =
     \<lparr>ObjectId_isValid = mem_isValid,
      Task_save = mem_Task_save,
      Task_findById = mem_Task_findById,
      Task_findByIdAndUpdate = mem_Task_findByIdAndUpdate,
      Task_findByIdAndDelete = mem_Task_findByIdAndDelete,
      Session_save = mem_Session_save\<rparr>"





section \<open>Example data\<close>

text \<open>
  The identifier \<^verbatim>\<open>000000000000000000000000\<close>, the Task "Write spec" stored under
  it, the store that holds this Task only, and a sequence of requests that tries to store
  blank titles.
\<close>

definition oid_zero :: js_string where
  "oid_zero = [0x30, 0x30, 0x30, 0x30, 0x30, 0x30, 0x30, 0x30, 0x30, 0x30, 0x30, 0x30,
               0x30, 0x30, 0x30, 0x30, 0x30, 0x30, 0x30, 0x30, 0x30, 0x30, 0x30, 0x30]"

definition write_spec :: task where
  "write_spec = \<lparr>task_id = 0,
     title = [0x57, 0x72, 0x69, 0x74, 0x65, 0x20, 0x73, 0x70, 0x65, 0x63],
     completed = False\<rparr>"

definition one_task :: mem where
  "one_task = \<lparr>tasks = [0 \<mapsto> write_spec], sessions = Map.empty, next_id = 1\<rparr>"


text \<open>
  A store that answers reads as the in-memory store does and refuses every write with an
  error of the driver, as a deployment does while it has no primary.
\<close>

definition not_primary :: js_error where
  "not_primary = JsError ''MongoServerError'' ''not primary''"

definition read_only_store :: "mem store" where
  "read_only_store =
     \<lparr>ObjectId_isValid = mem_isValid,
      Task_save = (\<lambda>ttl cmp s. (Inl not_primary, s)),
      Task_findById = mem_Task_findById,
      Task_findByIdAndUpdate = (\<lambda>ident updates s. (Inl not_primary, s)),
      Task_findByIdAndDelete = (\<lambda>ident s. (Inl not_primary, s)),
      Session_save = (\<lambda>tid dur start cmp s. (Inl not_primary, s))\<rparr>"

section \<open>trim and blank titles\<close>

lemma all_dropWhile: "(\<forall>x\<in>set (dropWhile P xs). P x) \<longleftrightarrow> (\<forall>x\<in>set xs. P x)"
  by (induction xs) auto

lemma trim_Nil_iff: "trim str = [] \<longleftrightarrow> blank str"
  by (simp add: trim_def blank_def list_all_iff all_dropWhile)



lemma call_trim_not_string:
  "\<not> is_string v \<Longrightarrow> \<exists>msg. call_trim expr v = Inl (JsError ''TypeError'' msg)"
  by (cases v) (simp_all add: is_string_def)

section \<open>The in-memory store keeps titles non-blank\<close>

lemma mem_store_simps [simp]:
  "ObjectId_isValid mem_store = mem_isValid"
  "Task_save mem_store = mem_Task_save"
  "Task_findById mem_store = mem_Task_findById"
  "Task_findByIdAndUpdate mem_store = mem_Task_findByIdAndUpdate"
  "Task_findByIdAndDelete mem_store = mem_Task_findByIdAndDelete"
  "Session_save mem_store = mem_Session_save"
  by (simp_all add: mem_store_def)

lemma parse_oid_zero: "parse_oid oid_zero = Some 0"
  by (simp add: parse_oid_def oid_zero_def hex_value_def)

lemma truthy_oid_zero: "oid_zero \<noteq> []"
  by (simp add: oid_zero_def)

lemma one_task_created:
  "post_api_tasks mem_store
     (empty_body(''title'' := JStr [0x20, 0x57, 0x72, 0x69, 0x74, 0x65, 0x20, 0x73, 0x70, 0x65, 0x63, 0x20]))
     mem_empty = (Response 201 (TaskBody write_spec), one_task)"
  by (simp add: post_api_tasks_def empty_body_def trim_def is_white_space_def js_or_def
      mem_Task_save_def mem_empty_def write_spec_def one_task_def Let_def)









section \<open>The claims\<close>

text \<open>
  C1, as amended. Create Session answers a schema validation failure of the save (an
  error named ValidationError) with 400, category "Validation error" and the error's own
  message; only a failure of the save under another name is answered with 500, category
  "Server error". A falsy \<open>taskId\<close>, \<open>duration\<close> or \<open>startTime\<close>, a malformed \<open>taskId\<close> and
  an absent referenced Task are answered with 400, and the store is left as it was.
\<close>

theorem create_session_failures:
  "(\<not> truthy (req_body ''taskId'') \<or> \<not> truthy (req_body ''duration'') \<or>
    \<not> truthy (req_body ''startTime'') \<longrightarrow>
      status (fst (post_api_sessions db req_body s)) = 400 \<and>
      error (payload (fst (post_api_sessions db req_body s))) = ''Validation error'' \<and>
      snd (post_api_sessions db req_body s) = s) \<and>
   (truthy (req_body ''taskId'') \<and> truthy (req_body ''duration'') \<and>
    truthy (req_body ''startTime'') \<longrightarrow>
      (\<not> ObjectId_isValid db (req_body ''taskId'') \<longrightarrow>
         post_api_sessions db req_body s =
           (Response 400 (ErrorBody ''Validation error'' (Text ''Invalid task ID format'')), s)) \<and>
      (ObjectId_isValid db (req_body ''taskId'') \<and>
       Task_findById db (req_body ''taskId'') s = Inr None \<longrightarrow>
         post_api_sessions db req_body s =
           (Response 400 (ErrorBody ''Validation error''
              (TaskWithIdDoesNotExist (req_body ''taskId''))), s)) \<and>
      (ObjectId_isValid db (req_body ''taskId'') \<and>
       Task_findById db (req_body ''taskId'') s = Inr (Some t) \<and>
       Session_save db (req_body ''taskId'') (req_body ''duration'') (req_body ''startTime'')
         (if req_body ''completed'' \<noteq> JUndefined then req_body ''completed'' else JBool True) s
         = (Inl err, s') \<longrightarrow>
         (err_name err = ''ValidationError'' \<longrightarrow>
            post_api_sessions db req_body s =
              (Response 400 (ErrorBody ''Validation error'' (Text (err_message err))), s')) \<and>
         (err_name err \<noteq> ''ValidationError'' \<longrightarrow>
            post_api_sessions db req_body s =
              (Response 500 (ErrorBody ''Server error'' (Text (err_message err))), s'))))"
  by (auto simp: post_api_sessions_def catch_validation_def)

theorem create_session_failures_witness:
  "status (fst (post_api_sessions mem_store
     (empty_body(''taskId'' := JStr oid_zero, ''startTime'' := JNum 1)) one_task)) = 400 \<and>
   post_api_sessions mem_store
     (empty_body(''taskId'' := JStr [0x78], ''duration'' := JNum 25, ''startTime'' := JNum 1))
     one_task =
     (Response 400 (ErrorBody ''Validation error'' (Text ''Invalid task ID format'')),
      one_task) \<and>
   post_api_sessions mem_store
     (empty_body(''taskId'' := JStr oid_zero, ''duration'' := JNum 25, ''startTime'' := JNum 1))
     mem_empty =
     (Response 400 (ErrorBody ''Validation error'' (TaskWithIdDoesNotExist (JStr oid_zero))),
      mem_empty) \<and>
   post_api_sessions mem_store
     (empty_body(''taskId'' := JStr oid_zero, ''duration'' := JStr [0x61], ''startTime'' := JNum 1))
     one_task =
     (Response 400 (ErrorBody ''Validation error'' (Text ''Validation failed: Session'')),
      one_task) \<and>
   post_api_sessions read_only_store
     (empty_body(''taskId'' := JStr oid_zero, ''duration'' := JNum 25, ''startTime'' := JNum 1))
     one_task =
     (Response 500 (ErrorBody ''Server error'' (Text ''not primary'')), one_task)"
proof -
  let ?missing = "empty_body(''taskId'' := JStr oid_zero, ''startTime'' := JNum 1)"
  let ?malformed = "empty_body(''taskId'' := JStr [0x78], ''duration'' := JNum 25,
    ''startTime'' := JNum 1)"
  let ?good = "empty_body(''taskId'' := JStr oid_zero, ''duration'' := JNum 25,
    ''startTime'' := JNum 1)"
  let ?text = "empty_body(''taskId'' := JStr oid_zero, ''duration'' := JStr [0x61],
    ''startTime'' := JNum 1)"
  have v: "mem_isValid (JStr oid_zero)"
    by (simp add: mem_isValid_def cast_oid_def parse_oid_zero)
  have nv: "\<not> mem_isValid (JStr [0x78])"
    by (simp add: mem_isValid_def cast_oid_def parse_oid_def)
  have f: "mem_Task_findById (JStr oid_zero) one_task = Inr (Some write_spec)"
    and nf: "mem_Task_findById (JStr oid_zero) mem_empty = Inr None"
    by (simp_all add: mem_Task_findById_def cast_oid_def parse_oid_zero one_task_def
        mem_empty_def)
  have "\<not> truthy (?missing ''duration'')"
    by (simp add: empty_body_def)
  then have 1: "status (fst (post_api_sessions mem_store ?missing one_task)) = 400"
    using create_session_failures [of ?missing mem_store one_task] by blast
  have "truthy (?malformed ''taskId'') \<and> truthy (?malformed ''duration'') \<and>
      truthy (?malformed ''startTime'') \<and> \<not> ObjectId_isValid mem_store (?malformed ''taskId'')"
    using nv by simp
  then have 2: "post_api_sessions mem_store ?malformed one_task =
      (Response 400 (ErrorBody ''Validation error'' (Text ''Invalid task ID format'')),
       one_task)"
    using create_session_failures [of ?malformed mem_store one_task] by blast
  have "truthy (?good ''taskId'') \<and> truthy (?good ''duration'') \<and>
      truthy (?good ''startTime'') \<and> ObjectId_isValid mem_store (?good ''taskId'') \<and>
      Task_findById mem_store (?good ''taskId'') mem_empty = Inr None"
    using v nf by (simp add: truthy_oid_zero)
  then have "post_api_sessions mem_store ?good mem_empty =
      (Response 400 (ErrorBody ''Validation error''
         (TaskWithIdDoesNotExist (?good ''taskId''))), mem_empty)"
    using create_session_failures [of ?good mem_store mem_empty] by blast
  then have 3: "post_api_sessions mem_store ?good mem_empty =
      (Response 400 (ErrorBody ''Validation error'' (TaskWithIdDoesNotExist (JStr oid_zero))),
       mem_empty)"
    by simp
  have "truthy (?text ''taskId'') \<and> truthy (?text ''duration'') \<and>
      truthy (?text ''startTime'') \<and> ObjectId_isValid mem_store (?text ''taskId'') \<and>
      Task_findById mem_store (?text ''taskId'') one_task = Inr (Some write_spec) \<and>
      Session_save mem_store (?text ''taskId'') (?text ''duration'') (?text ''startTime'')
        (if ?text ''completed'' \<noteq> JUndefined then ?text ''completed'' else JBool True)
        one_task = (Inl (validation_failed ''Session''), one_task) \<and>
      err_name (validation_failed ''Session'') = ''ValidationError''"
    using v f
    by (simp add: truthy_oid_zero mem_Session_save_def empty_body_def cast_oid_def
        parse_oid_zero validation_failed_def)
  then have "post_api_sessions mem_store ?text one_task =
      (Response 400 (ErrorBody ''Validation error''
         (Text (err_message (validation_failed ''Session'')))), one_task)"
    using create_session_failures [of ?text mem_store one_task write_spec
        "validation_failed ''Session''" one_task]
    by blast
  then have 4: "post_api_sessions mem_store ?text one_task =
      (Response 400 (ErrorBody ''Validation error'' (Text ''Validation failed: Session'')),
       one_task)"
    by (simp add: validation_failed_def)
  have "truthy (?good ''taskId'') \<and> truthy (?good ''duration'') \<and>
      truthy (?good ''startTime'') \<and> ObjectId_isValid read_only_store (?good ''taskId'') \<and>
      Task_findById read_only_store (?good ''taskId'') one_task = Inr (Some write_spec) \<and>
      Session_save read_only_store (?good ''taskId'') (?good ''duration'')
        (?good ''startTime'')
        (if ?good ''completed'' \<noteq> JUndefined then ?good ''completed'' else JBool True)
        one_task = (Inl not_primary, one_task) \<and>
      err_name not_primary \<noteq> ''ValidationError''"
    using v f by (simp add: truthy_oid_zero read_only_store_def not_primary_def)
  then have "post_api_sessions read_only_store ?good one_task =
      (Response 500 (ErrorBody ''Server error'' (Text (err_message not_primary))), one_task)"
    using create_session_failures [of ?good read_only_store one_task write_spec
        not_primary one_task]
    by blast
  then have 5: "post_api_sessions read_only_store ?good one_task =
      (Response 500 (ErrorBody ''Server error'' (Text ''not primary'')), one_task)"
    by (simp add: not_primary_def)
  from 1 2 3 4 5 show ?thesis
    by (intro conjI)
qed

text \<open>
  C1, as stated, fails: on the store that holds the Task "Write spec", a Session whose
  duration is the string "a" passes the handler's checks, the save reports a schema
  validation failure, and the response is 400, not 500.
\<close>

theorem create_session_validation_failure_counterexample:
  "fst (Session_save mem_store (JStr oid_zero) (JStr [0x61]) (JNum 1) (JBool True) one_task) =
     Inl (JsError ''ValidationError'' ''Validation failed: Session'') \<and>
   post_api_sessions mem_store
     (empty_body(''taskId'' := JStr oid_zero, ''duration'' := JStr [0x61], ''startTime'' := JNum 1))
     one_task =
     (Response 400 (ErrorBody ''Validation error'' (Text ''Validation failed: Session'')),
      one_task) \<and>
   status (fst (post_api_sessions mem_store
     (empty_body(''taskId'' := JStr oid_zero, ''duration'' := JStr [0x61], ''startTime'' := JNum 1))
     one_task)) \<noteq> 500"
  by (simp add: post_api_sessions_def mem_Session_save_def validation_failed_def
      catch_validation_def mem_isValid_def mem_Task_findById_def cast_oid_def parse_oid_zero
      one_task_def empty_body_def truthy_oid_zero)



text \<open>
  C3. For an existing Task (its identifier is well-formed and the store finds it), an
  Update Task request whose title is the empty string is answered with 400, the store is
  exactly what it was, and the Task found under the identifier afterwards is the same.
\<close>

theorem update_empty_title_rejected:
  assumes "ObjectId_isValid db (JStr ident)"
    and "Task_findById db (JStr ident) s = Inr (Some t)"
    and "updates ''title'' = JStr []"
  shows "put_api_tasks_id db ident updates s =
           (Response 400 (ErrorBody ''Validation error'' (Text ''Title cannot be empty'')), s) \<and>
         Task_findById db (JStr ident) (snd (put_api_tasks_id db ident updates s)) =
           Inr (Some t)"
  using assms by (simp add: put_api_tasks_id_def find_and_update_def trim_def)

theorem update_empty_title_rejected_witness:
  "put_api_tasks_id mem_store oid_zero (empty_body(''title'' := JStr [])) one_task =
     (Response 400 (ErrorBody ''Validation error'' (Text ''Title cannot be empty'')), one_task) \<and>
   Task_findById mem_store (JStr oid_zero)
     (snd (put_api_tasks_id mem_store oid_zero (empty_body(''title'' := JStr [])) one_task)) =
     Inr (Some write_spec)"
proof -
  have v: "ObjectId_isValid mem_store (JStr oid_zero)"
    by (simp add: mem_isValid_def cast_oid_def parse_oid_zero)
  have c: "Task_findById mem_store (JStr oid_zero) one_task = Inr (Some write_spec)"
    by (simp add: mem_Task_findById_def cast_oid_def parse_oid_zero one_task_def)
  have e: "(empty_body(''title'' := JStr [])) ''title'' = JStr []"
    by simp
  show ?thesis
    by (rule update_empty_title_rejected
      [of mem_store oid_zero one_task write_spec "empty_body(''title'' := JStr [])", OF v c e])
qed

text \<open>
  C4. For an existing Task, Update Task with the body \<^verbatim>\<open>{completed: true}\<close> is answered
  with 200 and the Task with \<open>completed\<close> set and every other field as it was, and that
  Task is what the store then holds. For any body answered with 200, a field the body does
  not have keeps its value, and the identifier and every other document are untouched.
\<close>

theorem partial_update_frame:
  assumes "parse_oid ident = Some k" and "tasks s k = Some t"
  shows "put_api_tasks_id mem_store ident (empty_body(''completed'' := JBool True)) s =
           (Response 200 (TaskBody (t\<lparr>completed := True\<rparr>)),
            s\<lparr>tasks := (tasks s)(k \<mapsto> t\<lparr>completed := True\<rparr>)\<rparr>) \<and>
         (put_api_tasks_id mem_store ident updates s = (Response 200 (TaskBody t'), s') \<longrightarrow>
            (updates ''title'' = JUndefined \<longrightarrow> title t' = title t) \<and>
            (updates ''completed'' = JUndefined \<longrightarrow> completed t' = completed t) \<and>
            task_id t' = task_id t \<and>
            s' = s\<lparr>tasks := (tasks s)(k \<mapsto> t')\<rparr>)"
proof (intro conjI impI)
  show "put_api_tasks_id mem_store ident (empty_body(''completed'' := JBool True)) s =
           (Response 200 (TaskBody (t\<lparr>completed := True\<rparr>)),
            s\<lparr>tasks := (tasks s)(k \<mapsto> t\<lparr>completed := True\<rparr>)\<rparr>)"
    using assms
    by (simp add: put_api_tasks_id_def find_and_update_def mem_isValid_def cast_oid_def empty_body_def
        mem_Task_findByIdAndUpdate_def apply_updates_def)
next
  assume r: "put_api_tasks_id mem_store ident updates s = (Response 200 (TaskBody t'), s')"
  have u: "apply_updates updates t = Inr t' \<and> s' = s\<lparr>tasks := (tasks s)(k \<mapsto> t')\<rparr>"
    using r assms
    by (auto simp: put_api_tasks_id_def find_and_update_def mem_isValid_def cast_oid_def catch_validation_def
        mem_Task_findByIdAndUpdate_def
        split: if_splits sum.splits bool.splits)
  then show "s' = s\<lparr>tasks := (tasks s)(k \<mapsto> t')\<rparr>" by simp
  from u show "task_id t' = task_id t"
    by (auto simp: apply_updates_def split: jsval.splits)
  { assume "updates ''title'' = JUndefined"
    with u show "title t' = title t"
      by (auto simp: apply_updates_def split: jsval.splits) }
  { assume "updates ''completed'' = JUndefined"
    with u show "completed t' = completed t"
      by (auto simp: apply_updates_def split: jsval.splits) }
qed

theorem partial_update_frame_witness:
  "put_api_tasks_id mem_store oid_zero (empty_body(''completed'' := JBool True)) one_task =
     (Response 200 (TaskBody (write_spec\<lparr>completed := True\<rparr>)),
      one_task\<lparr>tasks := (tasks one_task)(0 \<mapsto> write_spec\<lparr>completed := True\<rparr>)\<rparr>) \<and>
   put_api_tasks_id mem_store oid_zero (empty_body(''title'' := JStr [0x61])) one_task =
     (Response 200 (TaskBody (write_spec\<lparr>title := [0x61]\<rparr>)),
      one_task\<lparr>tasks := (tasks one_task)(0 \<mapsto> write_spec\<lparr>title := [0x61]\<rparr>)\<rparr>) \<and>
   completed (write_spec\<lparr>title := [0x61]\<rparr>) = completed write_spec \<and>
   task_id (write_spec\<lparr>title := [0x61]\<rparr>) = task_id write_spec"
proof -
  have t: "tasks one_task 0 = Some write_spec"
    by (simp add: one_task_def)
  note th = partial_update_frame [OF parse_oid_zero t]
  have 1: "put_api_tasks_id mem_store oid_zero (empty_body(''completed'' := JBool True))
      one_task =
      (Response 200 (TaskBody (write_spec\<lparr>completed := True\<rparr>)),
       one_task\<lparr>tasks := (tasks one_task)(0 \<mapsto> write_spec\<lparr>completed := True\<rparr>)\<rparr>)"
    by (rule th [THEN conjunct1])
  have 2: "put_api_tasks_id mem_store oid_zero (empty_body(''title'' := JStr [0x61])) one_task =
      (Response 200 (TaskBody (write_spec\<lparr>title := [0x61]\<rparr>)),
       one_task\<lparr>tasks := (tasks one_task)(0 \<mapsto> write_spec\<lparr>title := [0x61]\<rparr>)\<rparr>)"
    using t
    by (simp add: put_api_tasks_id_def find_and_update_def mem_isValid_def cast_oid_def
        parse_oid_zero trim_def is_white_space_def mem_Task_findByIdAndUpdate_def
        apply_updates_def empty_body_def)
  have u: "(empty_body(''title'' := JStr [0x61])) ''completed'' = JUndefined"
    by (simp add: empty_body_def)
  from th [THEN conjunct2, rule_format, OF 2]
  have "((empty_body(''title'' := JStr [0x61])) ''completed'' = JUndefined \<longrightarrow>
       completed (write_spec\<lparr>title := [0x61]\<rparr>) = completed write_spec) \<and>
      task_id (write_spec\<lparr>title := [0x61]\<rparr>) = task_id write_spec"
    by blast
  with u have 3: "completed (write_spec\<lparr>title := [0x61]\<rparr>) = completed write_spec"
    and 4: "task_id (write_spec\<lparr>title := [0x61]\<rparr>) = task_id write_spec"
    by blast+
  from 1 2 3 4 show ?thesis
    by (intro conjI)
qed



text \<open>
  C6. Get Task answers a malformed identifier with 404 ("Task not found", never a
  parse error), a well-formed identifier under which the store finds nothing with 404, and
  an identifier under which the store finds a Task with 200 and that Task.
\<close>

theorem get_task_statuses:
  "(\<not> ObjectId_isValid db (JStr ident) \<longrightarrow>
      get_api_tasks_id db ident s =
        Response 404 (ErrorBody ''Task not found'' (Text ''Invalid task ID format''))) \<and>
   (ObjectId_isValid db (JStr ident) \<and> Task_findById db (JStr ident) s = Inr None \<longrightarrow>
      get_api_tasks_id db ident s =
        Response 404 (ErrorBody ''Task not found'' (TaskWithIdNotFound ident))) \<and>
   (ObjectId_isValid db (JStr ident) \<and> Task_findById db (JStr ident) s = Inr (Some t) \<longrightarrow>
      get_api_tasks_id db ident s = Response 200 (TaskBody t))"
  by (simp add: get_api_tasks_id_def)

theorem get_task_statuses_witness:
  "get_api_tasks_id mem_store [0x78] one_task =
     Response 404 (ErrorBody ''Task not found'' (Text ''Invalid task ID format'')) \<and>
   get_api_tasks_id mem_store oid_zero mem_empty =
     Response 404 (ErrorBody ''Task not found'' (TaskWithIdNotFound oid_zero)) \<and>
   get_api_tasks_id mem_store oid_zero one_task = Response 200 (TaskBody write_spec)"
proof -
  have a: "\<not> ObjectId_isValid mem_store (JStr [0x78])"
    by (simp add: mem_isValid_def cast_oid_def parse_oid_def)
  have v: "ObjectId_isValid mem_store (JStr oid_zero)"
    by (simp add: mem_isValid_def cast_oid_def parse_oid_zero)
  have b: "Task_findById mem_store (JStr oid_zero) mem_empty = Inr None"
    by (simp add: mem_Task_findById_def cast_oid_def parse_oid_zero mem_empty_def)
  have c: "Task_findById mem_store (JStr oid_zero) one_task = Inr (Some write_spec)"
    by (simp add: mem_Task_findById_def cast_oid_def parse_oid_zero one_task_def)
  show ?thesis
    using a v b c get_task_statuses [of mem_store "[0x78]" one_task]
      get_task_statuses [of mem_store oid_zero mem_empty]
      get_task_statuses [of mem_store oid_zero one_task write_spec]
    by blast
qed

text \<open>
  C7. Deleting an existing Task is answered with 200 and a body that has a message and
  the deleted Task; the Task is no longer in the store; deleting the same identifier again
  is answered with 404.
\<close>

theorem delete_task_twice:
  assumes "parse_oid ident = Some k" and "tasks s k = Some t"
  shows "delete_api_tasks_id mem_store ident s =
           (Response 200 (DeletedBody ''Task deleted successfully'' t),
            s\<lparr>tasks := (tasks s)(k := None)\<rparr>) \<and>
         tasks (snd (delete_api_tasks_id mem_store ident s)) k = None \<and>
         delete_api_tasks_id mem_store ident (snd (delete_api_tasks_id mem_store ident s)) =
           (Response 404 (ErrorBody ''Task not found'' (Text ''Task not found'')),
            snd (delete_api_tasks_id mem_store ident s))"
  using assms
  by (simp add: delete_api_tasks_id_def mem_isValid_def cast_oid_def
      mem_Task_findByIdAndDelete_def)

theorem delete_task_twice_witness:
  "delete_api_tasks_id mem_store oid_zero one_task =
     (Response 200 (DeletedBody ''Task deleted successfully'' write_spec),
      one_task\<lparr>tasks := (tasks one_task)(0 := None)\<rparr>) \<and>
   tasks (snd (delete_api_tasks_id mem_store oid_zero one_task)) 0 = None \<and>
   delete_api_tasks_id mem_store oid_zero
     (snd (delete_api_tasks_id mem_store oid_zero one_task)) =
     (Response 404 (ErrorBody ''Task not found'' (Text ''Task not found'')),
      snd (delete_api_tasks_id mem_store oid_zero one_task))"
proof -
  have t: "tasks one_task 0 = Some write_spec"
    by (simp add: one_task_def)
  show ?thesis
    by (rule delete_task_twice [OF parse_oid_zero t])
qed

text \<open>
  C8. Creating a Task whose title is a string of white space only (or the empty string)
  is answered with 400 and the category "Validation error", and the store is left as it
  was: nothing is stored.
\<close>

theorem create_task_blank_title:
  assumes "req_body ''title'' = JStr ttl" and "blank ttl"
  shows "post_api_tasks db req_body s =
           (Response 400 (ErrorBody ''Validation error'' (Text ''Title is required'')), s)"
  using assms by (simp add: post_api_tasks_def trim_Nil_iff)

theorem create_task_blank_title_witness:
  "blank [0x20, 0x20, 0x20] \<and>
   post_api_tasks mem_store (empty_body(''title'' := JStr [0x20, 0x20, 0x20])) one_task =
     (Response 400 (ErrorBody ''Validation error'' (Text ''Title is required'')), one_task)"
proof -
  have b: "blank [0x20, 0x20, 0x20]"
    by (simp add: blank_def is_white_space_def)
  show ?thesis
    using b create_task_blank_title [of "empty_body(''title'' := JStr [0x20, 0x20, 0x20])"
        "[0x20, 0x20, 0x20]" mem_store one_task]
    by simp
qed

text \<open>
  C9. A title that is not a string makes the call of \<^verbatim>\<open>trim\<close> throw, and the request is
  answered with 500 and the category "Server error": in Create Task when the value is
  truthy (a falsy one is answered by the check before it), in Update Task when the
  identifier is well-formed and the property is present (\<^verbatim>\<open>null\<close> included). The store
  is left as it was.
\<close>

theorem non_string_title_server_error:
  "(truthy (req_body ''title'') \<and> \<not> is_string (req_body ''title'') \<longrightarrow>
      status (fst (post_api_tasks db req_body s)) = 500 \<and>
      error (payload (fst (post_api_tasks db req_body s))) = ''Server error'' \<and>
      snd (post_api_tasks db req_body s) = s) \<and>
   (ObjectId_isValid db (JStr ident) \<and> updates ''title'' \<noteq> JUndefined \<and>
    \<not> is_string (updates ''title'') \<longrightarrow>
      status (fst (put_api_tasks_id db ident updates s)) = 500 \<and>
      error (payload (fst (put_api_tasks_id db ident updates s))) = ''Server error'' \<and>
      snd (put_api_tasks_id db ident updates s) = s)"
proof (intro conjI impI)
  assume a: "truthy (req_body ''title'') \<and> \<not> is_string (req_body ''title'')"
  then obtain msg where "call_trim ''title'' (req_body ''title'') = Inl (JsError ''TypeError'' msg)"
    using call_trim_not_string by blast
  with a show "status (fst (post_api_tasks db req_body s)) = 500"
    and "error (payload (fst (post_api_tasks db req_body s))) = ''Server error''"
    and "snd (post_api_tasks db req_body s) = s"
    by (simp_all add: post_api_tasks_def catch_validation_def)
next
  assume a: "ObjectId_isValid db (JStr ident) \<and> updates ''title'' \<noteq> JUndefined \<and>
    \<not> is_string (updates ''title'')"
  then obtain msg where
    "call_trim ''updates.title'' (updates ''title'') = Inl (JsError ''TypeError'' msg)"
    using call_trim_not_string by blast
  with a show "status (fst (put_api_tasks_id db ident updates s)) = 500"
    and "error (payload (fst (put_api_tasks_id db ident updates s))) = ''Server error''"
    and "snd (put_api_tasks_id db ident updates s) = s"
    by (simp_all add: put_api_tasks_id_def find_and_update_def catch_validation_def)
qed

theorem non_string_title_server_error_witness:
  "status (fst (post_api_tasks mem_store (empty_body(''title'' := JNum 5)) one_task)) = 500 \<and>
   error (payload (fst (post_api_tasks mem_store (empty_body(''title'' := JNum 5)) one_task)))
     = ''Server error'' \<and>
   status (fst (put_api_tasks_id mem_store oid_zero (empty_body(''title'' := JNull)) one_task))
     = 500 \<and>
   error (payload (fst (put_api_tasks_id mem_store oid_zero (empty_body(''title'' := JNull))
     one_task))) = ''Server error'' \<and>
   snd (put_api_tasks_id mem_store oid_zero (empty_body(''title'' := JNull)) one_task) = one_task"
proof -
  have c: "truthy ((empty_body(''title'' := JNum 5)) ''title'') \<and>
      \<not> is_string ((empty_body(''title'' := JNum 5)) ''title'')"
    by (simp add: is_string_def)
  have u: "ObjectId_isValid mem_store (JStr oid_zero) \<and>
      (empty_body(''title'' := JNull)) ''title'' \<noteq> JUndefined \<and>
      \<not> is_string ((empty_body(''title'' := JNull)) ''title'')"
    by (simp add: is_string_def mem_isValid_def cast_oid_def parse_oid_zero)
  from c u show ?thesis
    using non_string_title_server_error [of "empty_body(''title'' := JNum 5)" mem_store one_task
        oid_zero "empty_body(''title'' := JNull)"]
    by blast
qed

text \<open>
  C10. Creating a Session whose duration is 0 is answered with 400 and the category
  "Validation error", exactly as if the duration were missing, and nothing is stored; the
  message is "Duration is required" whenever \<open>taskId\<close> passed the check before it.
\<close>

theorem zero_duration_rejected:
  assumes "req_body ''duration'' = JNum 0"
  shows "status (fst (post_api_sessions db req_body s)) = 400 \<and>
         error (payload (fst (post_api_sessions db req_body s))) = ''Validation error'' \<and>
         snd (post_api_sessions db req_body s) = s \<and>
         (truthy (req_body ''taskId'') \<longrightarrow>
            post_api_sessions db req_body s =
              (Response 400 (ErrorBody ''Validation error'' (Text ''Duration is required'')), s)) \<and>
         post_api_sessions db req_body s =
           post_api_sessions db (req_body(''duration'' := JUndefined)) s"
  using assms by (simp add: post_api_sessions_def)

theorem zero_duration_rejected_witness:
  "post_api_sessions mem_store
     (empty_body(''taskId'' := JStr oid_zero, ''duration'' := JNum 0, ''startTime'' := JNum 1))
     one_task =
     (Response 400 (ErrorBody ''Validation error'' (Text ''Duration is required'')), one_task)"
  using zero_duration_rejected [of
      "empty_body(''taskId'' := JStr oid_zero, ''duration'' := JNum 0, ''startTime'' := JNum 1)"
      mem_store one_task]
  by (simp add: oid_zero_def)

end
